theory Spec2Isabelle
  imports Main
begin

section \<open>The module classifier: the \<open>externals\<close> hook of \<open>bundleExternal\<close>\<close>

text \<open>
  The hook handed to the bundling backend in \<open>src/scripts/bundles/sys-node.ts\<close>:
  \<^verbatim>\<open>
  externals(_context, request, callback) {
    if (request.match(/^(\.{0,2})\//)) { return callback(null, undefined); }
    if (request === '@stencil/core/mock-doc') { return callback(null, '../../mock-doc'); }
    if (whitelist.has(request)) { require.resolve(request); return callback(null, request); }
    callback(undefined, undefined);
  }
  \<close>
  Its only effects are the call of \<open>callback\<close> and the exception of \<open>require.resolve\<close>,
  so its model returns which of the two happened. \<open>whitelist\<close> is a variable of the enclosing
  function that the hook closes over, and the resolvability of a module id is a fact of
  the environment: both are arguments of the model.
\<close>

type_synonym path = string

datatype js_nullish = JsNull | JsUndefined

datatype resolve_error = ModuleNotFound string

datatype hook_result =
    Callback js_nullish "string option"
  | Throws resolve_error

text \<open>
  The regular expression \<open>/^(\.{0,2})\//\<close>: at the start of the string, at most two dots
  (tried greedily: two, then one, then none), then a slash.
\<close>

definition starts_with :: "string \<Rightarrow> string \<Rightarrow> bool" where
  "starts_with p s = (take (length p) s = p)"

definition match_path_shape :: "string \<Rightarrow> bool" where
  "match_path_shape request =
     list_ex (\<lambda>n. starts_with (replicate n (CHR ''.'') @ ''/'') request) [2, 1, 0]"

definition whitelist :: "string set" where
  "whitelist = {''child_process'', ''os'', ''typescript''}"

definition externals ::
  "string set \<Rightarrow> (string \<Rightarrow> bool) \<Rightarrow> string \<Rightarrow> string \<Rightarrow> hook_result" where
  "externals wl resolvable context request =
     (if match_path_shape request then Callback JsNull None
      else if request = ''@stencil/core/mock-doc'' then Callback JsNull (Some ''../../mock-doc'')
      else if request \<in> wl then
        (if resolvable request then Callback JsNull (Some request)
         else Throws (ModuleNotFound request))
      else Callback JsUndefined None)"

text \<open>
  How the backend reads the callback's arguments, in the words of the design: no result
  means the module is bundled (internal); a result is the id the output will require at
  run time, which is the request itself (external) or another id (redirect).
\<close>

datatype classification = Internal | Redirect string | External string

fun classify :: "string \<Rightarrow> hook_result \<Rightarrow> classification option" where
  "classify request (Callback _ None) = Some Internal"
| "classify request (Callback _ (Some m)) =
     Some (if m = request then External m else Redirect m)"
| "classify request (Throws _) = None"

text \<open>
  The backend calls the hook once for every module request it meets. Nothing in the hook
  assigns to a variable that outlives the call (the \<open>whitelist\<close> set is only queried), so
  a run of calls is the hook applied to each (context, request) pair in turn.
\<close>

definition externals_calls ::
  "string set \<Rightarrow> (string \<Rightarrow> bool) \<Rightarrow> (string \<times> string) list \<Rightarrow> hook_result list" where
  "externals_calls wl resolvable calls =
     map (\<lambda>(context, request). externals wl resolvable context request) calls"


section \<open>The bundle job: \<open>bundleExternal\<close>\<close>

text \<open>
  The file system: which files exist, with their contents, and which directories exist.
  A path that holds a file counts as a file. The model covers what these two facts
  decide: a read or a copy of something that is not a file fails, and so does a write to
  a path that is a directory or whose directory does not exist. Permissions, full disks
  and the like are left out.
\<close>

type_synonym bytes = string

record filesystem =
  files :: "path \<rightharpoonup> bytes"
  dirs :: "path set"

definition put_file :: "path \<Rightarrow> bytes \<Rightarrow> filesystem \<Rightarrow> filesystem" where
  "put_file p b fs = fs \<lparr> files := (files fs)(p \<mapsto> b) \<rparr>"

text \<open>A JavaScript \<open>Error\<close> value; the code looks at its \<open>message\<close> only.\<close>

record js_error =
  message :: string

text \<open>
  \<open>BuildOptions\<close> is declared outside this file (\<open>../utils/options\<close>); these are the
  fields the code reads.
\<close>

record build_output =
  sysNodeDir :: path
  devServerDir :: path

record build_options =
  srcDir :: path
  transpiledDir :: path
  nodeModulesDir :: path
  bundleHelpersDir :: path
  isProd :: bool
  "output" :: build_output

text \<open>The options object passed to \<open>webpack(...)\<close>.\<close>

record webpack_config =
  entry :: path
  output_path :: path
  output_filename :: string
  output_libraryTarget :: string
  target :: string
  node_globals :: "(string \<times> bool) list"
  externals_hook :: "string \<Rightarrow> string \<Rightarrow> hook_result"
  resolve_alias :: "(string \<times> path) list"
  optimization_minimize :: bool
  mode :: string

text \<open>
  What the backend hands to its callback, \<open>(err, stats)\<close>, and the file system it leaves
  behind. Of \<open>stats\<close> the code uses \<open>hasErrors()\<close> and \<open>toJson({ errors: true }).errors\<close>.
\<close>

record webpack_stats =
  hasErrors :: bool
  errors :: "string list"

record backend_result =
  cb_err :: "js_error option"
  cb_stats :: "webpack_stats option"
  fs_after :: filesystem

text \<open>
  The libraries the job calls are parameters of the model: \<open>path.join\<close>, the bundling
  backend \<open>webpack\<close>, \<open>terser.minify\<close> (whose result carries either \<open>error\<close> or \<open>code\<close>)
  whether \<open>require.resolve\<close> finds a module, and \<open>fs.copy\<close>, which either fails with
  an error or leaves a new file system. So is \<open>dirname\<close>, the directory in which the
  operating system looks for the last segment of a path.
\<close>

record env =
  join :: "path list \<Rightarrow> path"
  dirname :: "path \<Rightarrow> path"
  webpack :: "webpack_config \<Rightarrow> filesystem \<Rightarrow> backend_result"
  copy :: "path \<Rightarrow> path \<Rightarrow> filesystem \<Rightarrow> js_error + filesystem"
  terser_minify :: "bytes \<Rightarrow> js_error + bytes"
  require_resolvable :: "string \<Rightarrow> bool"

text \<open>The calls a run makes, in the order it makes them.\<close>

datatype event =
    EnsureDir path
  | ExistsSync path
  | CopyFile path path
  | ReadFile path
  | WriteFile path bytes
  | Webpack webpack_config
  | TerserMinify bytes
  | Copy path path

text \<open>
  How the promise of a job ends. \<open>resolveBundle\<close> and \<open>rejectBundle\<close> settle it. An
  exception thrown inside the \<open>async\<close> executor or the \<open>async\<close> backend callback rejects
  only the promise of that inner function, which nobody holds: the promise of the job
  then stays pending for ever.
\<close>

datatype bundle_error =
    CompileError js_error
  | BundleDiagnosticError string
  | MinifyError js_error
  | EnsureDirError path
  | CopyError js_error

datatype uncaught =
    StatsUndefined
  | NoSuchFile path
  | IsDirectory path
  | NoSuchDirectory path

datatype settlement = Resolved | Rejected bundle_error | NeverSettles uncaught

record job_result =
  outcome :: settlement
  trace :: "event list"
  fs_final :: filesystem

text \<open>
  The file system calls of the job. \<open>existsSync\<close> answers yes for a file and for a
  directory. \<open>readFile\<close> and the source of \<open>copyFile\<close> need a file. \<open>writeFile\<close> and
  the destination of \<open>copyFile\<close> overwrite a file that is there, and otherwise need the
  path not to be a directory and its directory to exist; neither call creates a
  directory.
\<close>

definition exists_sync :: "filesystem \<Rightarrow> path \<Rightarrow> bool" where
  "exists_sync fs p = (files fs p \<noteq> None \<or> p \<in> dirs fs)"

definition read_file :: "filesystem \<Rightarrow> path \<Rightarrow> uncaught + bytes" where
  "read_file fs p =
     (case files fs p of
        Some b \<Rightarrow> Inr b
      | None \<Rightarrow> Inl (if p \<in> dirs fs then IsDirectory p else NoSuchFile p))"

definition can_write :: "env \<Rightarrow> filesystem \<Rightarrow> path \<Rightarrow> bool" where
  "can_write env fs p = (files fs p \<noteq> None \<or> (p \<notin> dirs fs \<and> dirname env p \<in> dirs fs))"

definition write_file :: "env \<Rightarrow> path \<Rightarrow> bytes \<Rightarrow> filesystem \<Rightarrow> uncaught + filesystem" where
  "write_file env p b fs =
     (if can_write env fs p then Inr (put_file p b fs)
      else Inl (if p \<in> dirs fs then IsDirectory p else NoSuchDirectory (dirname env p)))"

definition copy_file :: "env \<Rightarrow> path \<Rightarrow> path \<Rightarrow> filesystem \<Rightarrow> uncaught + filesystem" where
  "copy_file env src dst fs =
     (case read_file fs src of
        Inl failure \<Rightarrow> Inl failure
      | Inr b \<Rightarrow> write_file env dst b fs)"

text \<open>\<open>info.errors.join('\n')\<close>\<close>

fun join_lines :: "string list \<Rightarrow> string" where
  "join_lines [] = []"
| "join_lines [x] = x"
| "join_lines (x # y # ys) = x @ [CHR 0x0A] @ join_lines (y # ys)"

text \<open>The test \<open>err && err.message\<close>: an error value whose message is not empty.\<close>

definition err_and_message :: "js_error option \<Rightarrow> js_error option" where
  "err_and_message err =
     (case err of
        None \<Rightarrow> None
      | Some e \<Rightarrow> if message e \<noteq> [] then Some e else None)"

definition webpack_options :: "env \<Rightarrow> build_options \<Rightarrow> path \<Rightarrow> string \<Rightarrow> webpack_config" where
  "webpack_options env opts outputDir entryFileName =
     \<lparr> entry = join env [srcDir opts, ''sys'', ''node'', ''bundles'', entryFileName],
       output_path = outputDir,
       output_filename = entryFileName,
       output_libraryTarget = ''commonjs'',
       target = ''node'',
       node_globals = [(''__dirname'', False), (''__filename'', False),
                       (''process'', False), (''Buffer'', False)],
       externals_hook = externals whitelist (require_resolvable env),
       resolve_alias =
         [(''@utils'', join env [transpiledDir opts, ''utils'', ''index.js'']),
          (''postcss'', join env [nodeModulesDir opts, ''postcss'']),
          (''source-map'', join env [nodeModulesDir opts, ''source-map'']),
          (''chalk'', join env [bundleHelpersDir opts, ''empty.js''])],
       optimization_minimize = False,
       mode = ''production'' \<rparr>"

text \<open>
  The callback \<open>async (err, stats) => { ... }\<close> given to the backend. \<open>w\<close> is the file
  system as the backend left it.
\<close>

definition webpack_callback ::
  "env \<Rightarrow> build_options \<Rightarrow> path \<Rightarrow> path \<Rightarrow> backend_result \<Rightarrow> job_result" where
  "webpack_callback env opts outputFile cachedFile res =
     (let w = fs_after res in
      case err_and_message (cb_err res) of
        Some e \<Rightarrow> \<lparr> outcome = Rejected (CompileError e), trace = [], fs_final = w \<rparr>
      | None \<Rightarrow>
         (case cb_stats res of
            None \<Rightarrow> \<lparr> outcome = NeverSettles StatsUndefined, trace = [], fs_final = w \<rparr>
          | Some stats \<Rightarrow>
              if hasErrors stats then
                \<lparr> outcome = Rejected (BundleDiagnosticError (join_lines (errors stats))),
                  trace = [], fs_final = w \<rparr>
              else if isProd opts then
                (case read_file w outputFile of
                   Inl failure \<Rightarrow>
                     \<lparr> outcome = NeverSettles failure,
                       trace = [ReadFile outputFile], fs_final = w \<rparr>
                 | Inr code \<Rightarrow>
                    (case terser_minify env code of
                       Inl e \<Rightarrow>
                         \<lparr> outcome = Rejected (MinifyError e),
                           trace = [ReadFile outputFile, TerserMinify code], fs_final = w \<rparr>
                     | Inr minified \<Rightarrow>
                        (case write_file env outputFile minified w of
                           Inl failure \<Rightarrow>
                             \<lparr> outcome = NeverSettles failure,
                               trace = [ReadFile outputFile, TerserMinify code,
                                        WriteFile outputFile minified],
                               fs_final = w \<rparr>
                         | Inr written \<Rightarrow>
                             \<lparr> outcome = Resolved,
                               trace = [ReadFile outputFile, TerserMinify code,
                                        WriteFile outputFile minified],
                               fs_final = written \<rparr>)))
              else
                (case copy_file env outputFile cachedFile w of
                   Inl failure \<Rightarrow>
                     \<lparr> outcome = NeverSettles failure,
                       trace = [CopyFile outputFile cachedFile], fs_final = w \<rparr>
                 | Inr copied \<Rightarrow>
                     \<lparr> outcome = Resolved,
                       trace = [CopyFile outputFile cachedFile],
                       fs_final = copied \<rparr>)))"

text \<open>
  \<open>bundleExternal(opts, outputDir, cachedDir, entryFileName)\<close> in two steps. The
  executor of its promise runs at once up to its first asynchronous call: outside
  production it looks for the cache file with \<open>existsSync\<close> and, when that is there,
  issues \<open>copyFile(cachedFile, outputFile)\<close>; in every other case it calls the backend.
  \<open>start_bundle\<close> gives the calls made so far and what is now under way.
\<close>

datatype started =
    CopyStarted path path
  | CompileStarted webpack_config path path

definition start_bundle ::
  "env \<Rightarrow> build_options \<Rightarrow> path \<Rightarrow> path \<Rightarrow> string \<Rightarrow> filesystem
     \<Rightarrow> event list \<times> started" where
  "start_bundle env opts outputDir cachedDir entryFileName fs =
     (let outputFile = join env [outputDir, entryFileName];
          cachedFile = join env [cachedDir, entryFileName];
          cfg = webpack_options env opts outputDir entryFileName
      in
      if \<not> isProd opts then
        (if exists_sync fs cachedFile then
           ([ExistsSync cachedFile, CopyFile cachedFile outputFile],
            CopyStarted cachedFile outputFile)
         else
           ([ExistsSync cachedFile, Webpack cfg], CompileStarted cfg outputFile cachedFile))
      else ([Webpack cfg], CompileStarted cfg outputFile cachedFile))"

text \<open>
  The second step, on the file system of the moment at which the copy or the backend
  finishes: after the copy \<open>resolveBundle()\<close> (a failed copy throws inside the \<open>async\<close>
  executor), after the backend its callback.
\<close>

fun finish_bundle :: "env \<Rightarrow> build_options \<Rightarrow> started \<Rightarrow> filesystem \<Rightarrow> job_result" where
  "finish_bundle env opts (CopyStarted cachedFile outputFile) fs =
     (case copy_file env cachedFile outputFile fs of
        Inl failure \<Rightarrow> \<lparr> outcome = NeverSettles failure, trace = [], fs_final = fs \<rparr>
      | Inr copied \<Rightarrow> \<lparr> outcome = Resolved, trace = [], fs_final = copied \<rparr>)"
| "finish_bundle env opts (CompileStarted cfg outputFile cachedFile) fs =
     webpack_callback env opts outputFile cachedFile (webpack env cfg fs)"

text \<open>One job on its own: both steps on the same file system.\<close>

definition bundleExternal ::
  "env \<Rightarrow> build_options \<Rightarrow> path \<Rightarrow> path \<Rightarrow> string \<Rightarrow> filesystem \<Rightarrow> job_result" where
  "bundleExternal env opts outputDir cachedDir entryFileName fs =
     (let begun = start_bundle env opts outputDir cachedDir entryFileName fs;
          finish = finish_bundle env opts (snd begun) fs
      in finish \<lparr> trace := fst begun @ trace finish \<rparr>)"

text \<open>Predicates on the calls of a trace.\<close>

fun is_webpack :: "event \<Rightarrow> bool" where
  "is_webpack (Webpack _) = True"
| "is_webpack _ = False"

fun is_exists_sync :: "event \<Rightarrow> bool" where
  "is_exists_sync (ExistsSync _) = True"
| "is_exists_sync _ = False"

fun is_copy_file :: "event \<Rightarrow> bool" where
  "is_copy_file (CopyFile _ _) = True"
| "is_copy_file _ = False"

fun is_write_file :: "event \<Rightarrow> bool" where
  "is_write_file (WriteFile _ _) = True"
| "is_write_file _ = False"


text \<open>The paths a call reads, and the path it writes.\<close>

fun reads_path :: "path \<Rightarrow> event \<Rightarrow> bool" where
  "reads_path p (ExistsSync q) = (p = q)"
| "reads_path p (CopyFile src _) = (p = src)"
| "reads_path p (ReadFile q) = (p = q)"
| "reads_path p (Copy src _) = (p = src)"
| "reads_path p _ = False"

fun writes_path :: "path \<Rightarrow> event \<Rightarrow> bool" where
  "writes_path p (CopyFile _ dst) = (p = dst)"
| "writes_path p (WriteFile q _) = (p = q)"
| "writes_path p (Copy _ dst) = (p = dst)"
| "writes_path p _ = False"

text \<open>
  The backend reported a finished compile: the test \<open>err && err.message\<close> fails and the
  stats carry no errors.
\<close>

definition compile_succeeded :: "backend_result \<Rightarrow> bool" where
  "compile_succeeded res =
     (err_and_message (cb_err res) = None
      \<and> (case cb_stats res of None \<Rightarrow> False | Some stats \<Rightarrow> \<not> hasErrors stats))"

subsection \<open>A small environment to run the model on\<close>

text \<open>
  \<open>join_slash\<close> joins path segments with a slash and \<open>dirname_slash\<close> cuts a path at
  its last slash. \<open>demo_webpack\<close> reports diagnostics for the entry \<open>glob.js\<close>, a tooling
  error for \<open>ws.js\<close>, and otherwise creates the output directory and writes the bundle
  to the output file, whatever the hook would answer. \<open>demo_minify\<close> rejects code that
  contains a question mark, and \<open>demo_copy\<close> copies a file when there is one.
\<close>

fun join_slash :: "path list \<Rightarrow> path" where
  "join_slash [] = ''.''"
| "join_slash [p] = p"
| "join_slash (p # q # ps) = p @ ''/'' @ join_slash (q # ps)"

definition dirname_slash :: "path \<Rightarrow> path" where
  "dirname_slash p = rev (drop 1 (dropWhile (\<lambda>c. c \<noteq> CHR ''/'') (rev p)))"

definition demo_webpack :: "webpack_config \<Rightarrow> filesystem \<Rightarrow> backend_result" where
  "demo_webpack cfg fs =
     (if output_filename cfg = ''glob.js'' then
        \<lparr> cb_err = None,
          cb_stats = Some \<lparr> hasErrors = True, errors = [''Module not found'', ''in glob''] \<rparr>,
          fs_after = fs \<rparr>
      else if output_filename cfg = ''ws.js'' then
        \<lparr> cb_err = Some \<lparr> message = ''EACCES'' \<rparr>, cb_stats = None, fs_after = fs \<rparr>
      else
        \<lparr> cb_err = None,
          cb_stats = Some \<lparr> hasErrors = False, errors = [] \<rparr>,
          fs_after =
            \<lparr> files = (files fs)(join_slash [output_path cfg, output_filename cfg]
                                  \<mapsto> ''bundle of '' @ output_filename cfg),
              dirs = insert (output_path cfg) (dirs fs) \<rparr> \<rparr>)"

definition demo_minify :: "bytes \<Rightarrow> js_error + bytes" where
  "demo_minify code =
     (if CHR ''?'' \<in> set code then Inl \<lparr> message = ''Unexpected token'' \<rparr>
      else Inr (filter (\<lambda>c. c \<noteq> CHR '' '') code))"

definition demo_copy :: "path \<Rightarrow> path \<Rightarrow> filesystem \<Rightarrow> js_error + filesystem" where
  "demo_copy src dest fs =
     (case files fs src of
        None \<Rightarrow> Inl \<lparr> message = ''ENOENT'' \<rparr>
      | Some b \<Rightarrow>
          Inr \<lparr> files = (files fs)(dest \<mapsto> b), dirs = insert (dirname_slash dest) (dirs fs) \<rparr>)"

definition demo_env :: env where
  "demo_env = \<lparr> join = join_slash, dirname = dirname_slash, webpack = demo_webpack,
                copy = demo_copy, terser_minify = demo_minify, require_resolvable = (\<lambda>_. True) \<rparr>"

definition demo_opts :: "bool \<Rightarrow> build_options" where
  "demo_opts production =
     \<lparr> srcDir = ''src'', transpiledDir = ''build'', nodeModulesDir = ''node_modules'',
       bundleHelpersDir = ''helpers'', isProd = production,
       output = \<lparr> sysNodeDir = ''sys/node'', devServerDir = ''dev-server'' \<rparr> \<rparr>"

text \<open>An empty disk, and a disk with nothing but the given files and directories.\<close>

definition disk :: "(path \<times> bytes) list \<Rightarrow> path list \<Rightarrow> filesystem" where
  "disk fl dl = \<lparr> files = map_of fl, dirs = set dl \<rparr>"

text \<open>
  A second environment: its backend hands the callback an error value with an empty
  message and no stats. A third, which resolves no module: its backend puts the request
  \<open>typescript\<close> to the hook and, also when the hook throws, goes on, writes a bundle and
  reports a finished compile.
\<close>

definition silent_webpack :: "webpack_config \<Rightarrow> filesystem \<Rightarrow> backend_result" where
  "silent_webpack cfg fs = \<lparr> cb_err = Some \<lparr> message = [] \<rparr>, cb_stats = None, fs_after = fs \<rparr>"

definition silent_env :: env where
  "silent_env = \<lparr> join = join_slash, dirname = dirname_slash, webpack = silent_webpack,
                  copy = demo_copy, terser_minify = demo_minify, require_resolvable = (\<lambda>_. True) \<rparr>"




section \<open>The orchestrator: \<open>sysNodeExternalBundles\<close>\<close>














section \<open>Properties of the classifier\<close>

lemma match_path_shape_iff:
  "match_path_shape r \<longleftrightarrow>
     take 3 r = ''../'' \<or> take 2 r = ''./'' \<or> take 1 r = ''/''"
  by (simp add: match_path_shape_def starts_with_def numeral_2_eq_2 numeral_3_eq_3)

lemma mock_doc_not_path: "\<not> match_path_shape ''@stencil/core/mock-doc''"
  by (simp add: match_path_shape_iff)

text \<open>
  C3. A request that begins with \<open>./\<close>, \<open>../\<close> or \<open>/\<close> is answered with
  \<open>callback(null, undefined)\<close>: it is classified Internal, whatever the whitelist and
  whatever can be resolved.
\<close>

theorem C3_path_shape_internal:
  assumes "take 2 request = ''./'' \<or> take 3 request = ''../'' \<or> take 1 request = ''/''"
  shows "externals wl resolvable ctx request = Callback JsNull None
       \<and> classify request (externals wl resolvable ctx request) = Some Internal"
  using assms by (auto simp add: externals_def match_path_shape_iff)

theorem C3_path_shape_internal_witness:
  "(take 2 ''../utils/x.js'' = ''./'' \<or> take 3 ''../utils/x.js'' = ''../''
      \<or> take 1 ''../utils/x.js'' = ''/'')
   \<and> externals whitelist (\<lambda>_. False) ''/ctx'' ''../utils/x.js'' = Callback JsNull None
   \<and> classify ''../utils/x.js'' (externals whitelist (\<lambda>_. False) ''/ctx'' ''../utils/x.js'')
       = Some Internal"
proof -
  have h: "take 2 ''../utils/x.js'' = ''./'' \<or> take 3 ''../utils/x.js'' = ''../''
      \<or> take 1 ''../utils/x.js'' = ''/''"
    by simp
  from C3_path_shape_internal [OF h, of whitelist "\<lambda>_. False" "''/ctx''"] h
  show ?thesis by blast
qed



text \<open>
  C6. The request \<open>@stencil/core/mock-doc\<close> is answered with
  \<open>callback(null, '../../mock-doc')\<close>: an external with another id, a redirect. The
  position of the rule shows in two ways. The request is not of the path shape, so the
  first rule lets it through; and the answer is the same for every whitelist and every
  environment, also one whose whitelist holds the request and cannot resolve it, where
  the whitelist rule would have thrown. For any request, the hook redirects exactly when
  the path rule did not fire and the request is this one.
\<close>

theorem C6_mock_doc_redirect:
  "externals wl resolvable ctx ''@stencil/core/mock-doc''
     = Callback JsNull (Some ''../../mock-doc'')
   \<and> classify ''@stencil/core/mock-doc''
        (externals wl resolvable ctx ''@stencil/core/mock-doc'')
     = Some (Redirect ''../../mock-doc'')
   \<and> \<not> match_path_shape ''@stencil/core/mock-doc''
   \<and> externals (insert ''@stencil/core/mock-doc'' wl) (\<lambda>_. False) ctx
        ''@stencil/core/mock-doc'' \<noteq> Throws (ModuleNotFound ''@stencil/core/mock-doc'')
   \<and> ((classify request (externals wl resolvable ctx request) = Some (Redirect m))
        = (\<not> match_path_shape request \<and> request = ''@stencil/core/mock-doc''
           \<and> m = ''../../mock-doc''))"
  using mock_doc_not_path by (auto simp add: externals_def)

theorem C6_mock_doc_redirect_witness:
  "externals {''@stencil/core/mock-doc''} (\<lambda>_. False) ''/ctx'' ''@stencil/core/mock-doc''
     = Callback JsNull (Some ''../../mock-doc'')
   \<and> classify ''./@stencil/core/mock-doc''
        (externals whitelist (\<lambda>_. True) ''/ctx'' ''./@stencil/core/mock-doc'')
     \<noteq> Some (Redirect ''../../mock-doc'')"
  using C6_mock_doc_redirect [of "{''@stencil/core/mock-doc''}" "\<lambda>_. False" "''/ctx''"]
        C6_mock_doc_redirect [where request = "''./@stencil/core/mock-doc''" and wl = whitelist
          and resolvable = "\<lambda>_. True" and ctx = "''/ctx''" and m = "''../../mock-doc''"]
  by simp

text \<open>
  C10. The hook's outcome is a function of the request and of which whitelisted modules
  resolve: two calls with the same request, in environments that agree on the
  whitelisted modules, end the same way (the same callback arguments or the same
  resolution error), whatever the two context arguments are and whatever calls came
  before.
\<close>

theorem C10_externals_deterministic:
  assumes "\<forall>m \<in> wl. resolvable1 m = resolvable2 m"
  shows "externals wl resolvable1 ctx1 request = externals wl resolvable2 ctx2 request
       \<and> last (externals_calls wl resolvable1 (prior1 @ [(ctx1, request)]))
           = last (externals_calls wl resolvable2 (prior2 @ [(ctx2, request)]))"
  using assms by (simp add: externals_calls_def externals_def)

theorem C10_externals_deterministic_witness:
  "externals whitelist (\<lambda>m. m \<noteq> ''fs'') ''/a'' ''os''
       = externals whitelist (\<lambda>m. m \<noteq> ''path'') ''/b'' ''os''
   \<and> last (externals_calls whitelist (\<lambda>m. m \<noteq> ''fs'') ([(''/a'', ''./x'')] @ [(''/a'', ''os'')]))
       = last (externals_calls whitelist (\<lambda>m. m \<noteq> ''path'')
                 ([(''/c'', ''typescript''), (''/d'', ''lodash'')] @ [(''/b'', ''os'')]))"
proof -
  have h: "\<forall>m \<in> whitelist. (m \<noteq> ''fs'') = (m \<noteq> ''path'')"
    by (simp add: whitelist_def)
  from C10_externals_deterministic [OF h, of "''/a''" "''os''" "''/b''"
         "[(''/a'', ''./x'')]" "[(''/c'', ''typescript''), (''/d'', ''lodash'')]"]
  show ?thesis by blast
qed

section \<open>Lemmas about the bundle job\<close>

lemma write_file_existing:
  "files fs p = Some old \<Longrightarrow> write_file env p b fs = Inr (put_file p b fs)"
  by (simp add: write_file_def can_write_def)

lemma write_file_cases:
  "(\<exists>failure. write_file env p b fs = Inl failure) \<or> write_file env p b fs = Inr (put_file p b fs)"
  by (simp add: write_file_def)

lemma copy_file_cases:
  "(\<exists>failure. copy_file env src dst fs = Inl failure)
   \<or> (\<exists>b. files fs src = Some b \<and> copy_file env src dst fs = Inr (put_file dst b fs))"
  by (auto simp add: copy_file_def read_file_def write_file_def split: option.splits)

lemma copy_file_ok:
  "files fs src = Some b \<Longrightarrow> can_write env fs dst \<Longrightarrow>
   copy_file env src dst fs = Inr (put_file dst b fs)"
  by (simp add: copy_file_def read_file_def write_file_def)

lemma write_file_Inr:
  "write_file env p b fs = Inr w \<Longrightarrow> w = put_file p b fs"
  by (simp add: write_file_def split: if_splits)

lemma copy_file_Inr:
  "copy_file env src dst fs = Inr w \<Longrightarrow> \<exists>b. files fs src = Some b \<and> w = put_file dst b fs"
  by (auto simp add: copy_file_def read_file_def write_file_def split: option.splits if_splits)

lemma files_put_file: "files (put_file p b fs) = (files fs)(p \<mapsto> b)"
  by (simp add: put_file_def)

lemma trace_webpack_callback_cases:
  "trace (webpack_callback env opts outputFile cachedFile res) = []
   \<or> trace (webpack_callback env opts outputFile cachedFile res) = [ReadFile outputFile]
   \<or> (\<exists>code. trace (webpack_callback env opts outputFile cachedFile res)
         = [ReadFile outputFile, TerserMinify code])
   \<or> (\<exists>code m. trace (webpack_callback env opts outputFile cachedFile res)
         = [ReadFile outputFile, TerserMinify code, WriteFile outputFile m])
   \<or> trace (webpack_callback env opts outputFile cachedFile res)
         = [CopyFile outputFile cachedFile]"
  by (simp add: webpack_callback_def Let_def split: option.splits sum.splits)

lemma callback_no_webpack:
  "\<not> list_ex is_webpack (trace (webpack_callback env opts outputFile cachedFile res))"
  using trace_webpack_callback_cases [of env opts outputFile cachedFile res] by auto

lemma callback_no_exists_sync:
  "\<not> list_ex is_exists_sync (trace (webpack_callback env opts outputFile cachedFile res))"
  using trace_webpack_callback_cases [of env opts outputFile cachedFile res] by auto


lemma callback_prod_no_copy_file:
  "isProd opts \<Longrightarrow>
   \<not> list_ex is_copy_file (trace (webpack_callback env opts outputFile cachedFile res))"
  by (simp add: webpack_callback_def Let_def split: option.splits sum.splits)

lemma callback_prod_reads:
  "isProd opts \<Longrightarrow> outputFile \<noteq> cachedFile \<Longrightarrow>
   \<not> list_ex (reads_path cachedFile)
        (trace (webpack_callback env opts outputFile cachedFile res))"
  by (simp add: webpack_callback_def Let_def split: option.splits sum.splits)

lemma callback_rejected_untouched:
  "outcome (webpack_callback env opts outputFile cachedFile res) = Rejected err \<Longrightarrow>
   trace (webpack_callback env opts outputFile cachedFile res) = []
   \<or> (\<exists>code. trace (webpack_callback env opts outputFile cachedFile res)
         = [ReadFile outputFile, TerserMinify code])"
  by (auto simp add: webpack_callback_def Let_def split: option.splits sum.splits if_splits)

lemma callback_rejected_fs:
  "outcome (webpack_callback env opts outputFile cachedFile res) = Rejected err \<Longrightarrow>
   fs_final (webpack_callback env opts outputFile cachedFile res) = fs_after res"
  by (auto simp add: webpack_callback_def Let_def split: option.splits sum.splits if_splits)

lemma callback_copy_file_only_on_success:
  "list_ex is_copy_file (trace (webpack_callback env opts outputFile cachedFile res)) \<Longrightarrow>
   \<not> isProd opts \<and> compile_succeeded res
   \<and> trace (webpack_callback env opts outputFile cachedFile res)
       = [CopyFile outputFile cachedFile]"
  by (auto simp add: webpack_callback_def compile_succeeded_def Let_def
           split: option.splits sum.splits if_splits)

lemma callback_cache_path_kept:
  assumes "isProd opts \<or> outcome (webpack_callback env opts outputFile cachedFile res) \<noteq> Resolved"
    and "outputFile \<noteq> cachedFile"
  shows "files (fs_final (webpack_callback env opts outputFile cachedFile res)) cachedFile
     = files (fs_after res) cachedFile"
  using assms
  by (auto simp add: webpack_callback_def Let_def files_put_file
        split: option.splits sum.splits if_splits dest!: write_file_Inr)

lemma callback_writes_cache:
  "outputFile \<noteq> cachedFile \<Longrightarrow>
   list_ex (writes_path cachedFile)
     (trace (webpack_callback env opts outputFile cachedFile res)) \<Longrightarrow>
   list_ex is_copy_file (trace (webpack_callback env opts outputFile cachedFile res))"
  using trace_webpack_callback_cases [of env opts outputFile cachedFile res] by auto

subsection \<open>The job, by the way it starts\<close>

lemma bundleExternal_run:
  assumes "isProd opts \<or> \<not> exists_sync fs (join env [cachedDir, e])"
  shows "outcome (bundleExternal env opts outputDir cachedDir e fs)
           = outcome (webpack_callback env opts (join env [outputDir, e])
                        (join env [cachedDir, e])
                        (webpack env (webpack_options env opts outputDir e) fs))"
    and "fs_final (bundleExternal env opts outputDir cachedDir e fs)
           = fs_final (webpack_callback env opts (join env [outputDir, e])
                         (join env [cachedDir, e])
                         (webpack env (webpack_options env opts outputDir e) fs))"
    and "trace (bundleExternal env opts outputDir cachedDir e fs)
           = (if isProd opts then [] else [ExistsSync (join env [cachedDir, e])])
             @ Webpack (webpack_options env opts outputDir e)
             # trace (webpack_callback env opts (join env [outputDir, e])
                        (join env [cachedDir, e])
                        (webpack env (webpack_options env opts outputDir e) fs))"
  using assms by (auto simp add: bundleExternal_def start_bundle_def Let_def)

lemma bundleExternal_hit:
  assumes "\<not> isProd opts" "exists_sync fs (join env [cachedDir, e])"
  shows "trace (bundleExternal env opts outputDir cachedDir e fs)
           = [ExistsSync (join env [cachedDir, e]),
              CopyFile (join env [cachedDir, e]) (join env [outputDir, e])]"
    and "outcome (bundleExternal env opts outputDir cachedDir e fs)
           = (case copy_file env (join env [cachedDir, e]) (join env [outputDir, e]) fs of
                Inl failure \<Rightarrow> NeverSettles failure
              | Inr copied \<Rightarrow> Resolved)"
    and "fs_final (bundleExternal env opts outputDir cachedDir e fs)
           = (case copy_file env (join env [cachedDir, e]) (join env [outputDir, e]) fs of
                Inl failure \<Rightarrow> fs
              | Inr copied \<Rightarrow> copied)"
  using assms
  by (auto simp add: bundleExternal_def start_bundle_def Let_def split: sum.splits)

lemma bundleExternal_hit_ok:
  assumes "\<not> isProd opts" "files fs (join env [cachedDir, e]) = Some cached"
    "can_write env fs (join env [outputDir, e])"
  shows "bundleExternal env opts outputDir cachedDir e fs =
     \<lparr> outcome = Resolved,
       trace = [ExistsSync (join env [cachedDir, e]),
                CopyFile (join env [cachedDir, e]) (join env [outputDir, e])],
       fs_final = put_file (join env [outputDir, e]) cached fs \<rparr>"
proof -
  have ex: "exists_sync fs (join env [cachedDir, e])"
    using assms(2) by (simp add: exists_sync_def)
  have cp: "copy_file env (join env [cachedDir, e]) (join env [outputDir, e]) fs
      = Inr (put_file (join env [outputDir, e]) cached fs)"
    using assms(2,3) by (rule copy_file_ok)
  show ?thesis
    using assms(1) ex cp by (simp add: bundleExternal_def start_bundle_def Let_def)
qed

lemma bundleExternal_hit_not_rejected:
  assumes "\<not> isProd opts" "exists_sync fs (join env [cachedDir, e])"
  shows "outcome (bundleExternal env opts outputDir cachedDir e fs) \<noteq> Rejected err"
  using assms by (simp add: bundleExternal_hit(2) split: sum.splits)

lemma bundleExternal_hit_kept:
  assumes "\<not> isProd opts" "exists_sync fs (join env [cachedDir, e])"
    "outcome (bundleExternal env opts outputDir cachedDir e fs) \<noteq> Resolved"
  shows "fs_final (bundleExternal env opts outputDir cachedDir e fs) = fs"
  using assms(3) by (simp add: bundleExternal_hit(2,3) [OF assms(1,2)] split: sum.splits)

lemma cache_write_prod:
  "isProd opts \<Longrightarrow>
   \<not> list_ex is_copy_file (trace (bundleExternal env opts outputDir cachedDir e fs))"
  using callback_prod_no_copy_file [of opts env]
  by (simp add: bundleExternal_def start_bundle_def Let_def)

lemma rejected_ran_backend:
  assumes "outcome (bundleExternal env opts outputDir cachedDir e fs) = Rejected err"
  shows "isProd opts \<or> \<not> exists_sync fs (join env [cachedDir, e])"
  using assms bundleExternal_hit_not_rejected [of opts fs env cachedDir e outputDir err]
  by blast

lemma webpack_ran_backend:
  assumes "list_ex is_webpack (trace (bundleExternal env opts outputDir cachedDir e fs))"
  shows "isProd opts \<or> \<not> exists_sync fs (join env [cachedDir, e])"
proof (rule ccontr)
  assume "\<not> (isProd opts \<or> \<not> exists_sync fs (join env [cachedDir, e]))"
  then have "\<not> isProd opts" "exists_sync fs (join env [cachedDir, e])"
    by simp_all
  from bundleExternal_hit(1) [OF this, of outputDir] assms show False
    by simp
qed

lemma cache_write_rejected:
  assumes "outcome (bundleExternal env opts outputDir cachedDir e fs) = Rejected err"
  shows "\<not> list_ex is_copy_file (trace (bundleExternal env opts outputDir cachedDir e fs))
       \<and> \<not> list_ex is_write_file (trace (bundleExternal env opts outputDir cachedDir e fs))
       \<and> list_ex is_webpack (trace (bundleExternal env opts outputDir cachedDir e fs))
       \<and> fs_final (bundleExternal env opts outputDir cachedDir e fs)
           = fs_after (webpack env (webpack_options env opts outputDir e) fs)"
proof -
  note run = rejected_ran_backend [OF assms]
  note job = bundleExternal_run [where fs = fs and env = env and opts = opts
      and cachedDir = cachedDir and e = e and outputDir = outputDir, OF run]
  from assms have r: "outcome (webpack_callback env opts (join env [outputDir, e])
                        (join env [cachedDir, e])
                        (webpack env (webpack_options env opts outputDir e) fs)) = Rejected err"
    by (simp add: job(1))
  from callback_rejected_untouched [OF r] callback_rejected_fs [OF r]
  show ?thesis
    by (auto simp add: job(2,3))
qed

lemma cache_write_needs_success:
  assumes "list_ex is_webpack (trace (bundleExternal env opts outputDir cachedDir e fs))"
    and "list_ex is_copy_file (trace (bundleExternal env opts outputDir cachedDir e fs))"
  shows "\<not> isProd opts
       \<and> compile_succeeded (webpack env (webpack_options env opts outputDir e) fs)
       \<and> last (trace (bundleExternal env opts outputDir cachedDir e fs))
           = CopyFile (join env [outputDir, e]) (join env [cachedDir, e])
       \<and> length (filter is_copy_file
           (trace (bundleExternal env opts outputDir cachedDir e fs))) = 1"
proof -
  note run = webpack_ran_backend [OF assms(1)]
  note job = bundleExternal_run [where fs = fs and env = env and opts = opts
      and cachedDir = cachedDir and e = e and outputDir = outputDir, OF run]
  from assms(2) have "list_ex is_copy_file
      (trace (webpack_callback env opts (join env [outputDir, e]) (join env [cachedDir, e])
                (webpack env (webpack_options env opts outputDir e) fs)))"
    by (auto simp add: job(3) split: if_splits)
  from callback_copy_file_only_on_success [OF this]
  show ?thesis
    by (simp add: job(3))
qed

lemma cache_path_kept:
  assumes "isProd opts \<or> outcome (bundleExternal env opts outputDir cachedDir e fs) \<noteq> Resolved"
    and "join env [outputDir, e] \<noteq> join env [cachedDir, e]"
  shows "files (fs_final (bundleExternal env opts outputDir cachedDir e fs))
             (join env [cachedDir, e])
           = files (if list_ex is_webpack (trace (bundleExternal env opts outputDir cachedDir e fs))
                    then fs_after (webpack env (webpack_options env opts outputDir e) fs)
                    else fs)
               (join env [cachedDir, e])"
proof (cases "isProd opts \<or> \<not> exists_sync fs (join env [cachedDir, e])")
  case True
  note job = bundleExternal_run [where fs = fs and env = env and opts = opts
      and cachedDir = cachedDir and e = e and outputDir = outputDir, OF True]
  from assms(1) have "isProd opts \<or> outcome (webpack_callback env opts (join env [outputDir, e])
             (join env [cachedDir, e])
             (webpack env (webpack_options env opts outputDir e) fs)) \<noteq> Resolved"
    by (simp add: job(1))
  from callback_cache_path_kept [OF this assms(2)]
  show ?thesis
    by (simp add: job(2,3))
next
  case False
  then have hit: "\<not> isProd opts" "exists_sync fs (join env [cachedDir, e])"
    by simp_all
  from assms(1) hit(1)
  have "outcome (bundleExternal env opts outputDir cachedDir e fs) \<noteq> Resolved"
    by simp
  from bundleExternal_hit_kept [OF hit this] bundleExternal_hit(1) [OF hit, of outputDir]
  show ?thesis
    by simp
qed

lemma cache_written_needs_success:
  assumes "join env [outputDir, e] \<noteq> join env [cachedDir, e]"
    and "list_ex (writes_path (join env [cachedDir, e]))
           (trace (bundleExternal env opts outputDir cachedDir e fs))"
  shows "\<not> isProd opts
       \<and> list_ex is_webpack (trace (bundleExternal env opts outputDir cachedDir e fs))
       \<and> compile_succeeded (webpack env (webpack_options env opts outputDir e) fs)"
proof -
  have run: "isProd opts \<or> \<not> exists_sync fs (join env [cachedDir, e])"
  proof (rule ccontr)
    assume "\<not> (isProd opts \<or> \<not> exists_sync fs (join env [cachedDir, e]))"
    then have hit: "\<not> isProd opts" "exists_sync fs (join env [cachedDir, e])"
      by simp_all
    from bundleExternal_hit(1) [OF hit, of outputDir] assms show False
      by simp
  qed
  note job = bundleExternal_run [where fs = fs and env = env and opts = opts
      and cachedDir = cachedDir and e = e and outputDir = outputDir, OF run]
  from assms(2) have "list_ex (writes_path (join env [cachedDir, e]))
      (trace (webpack_callback env opts (join env [outputDir, e]) (join env [cachedDir, e])
                (webpack env (webpack_options env opts outputDir e) fs)))"
    by (auto simp add: job(3) split: if_splits)
  from callback_copy_file_only_on_success [OF callback_writes_cache [OF assms(1) this]]
  show ?thesis
    by (simp add: job(3))
qed

subsection \<open>The callback, branch by branch\<close>

lemma callback_hard_failure:
  "err_and_message (cb_err res) = Some err \<Longrightarrow>
   webpack_callback env opts outputFile cachedFile res =
     \<lparr> outcome = Rejected (CompileError err), trace = [], fs_final = fs_after res \<rparr>"
  by (simp add: webpack_callback_def Let_def)

lemma callback_stats_undefined:
  "err_and_message (cb_err res) = None \<Longrightarrow> cb_stats res = None \<Longrightarrow>
   webpack_callback env opts outputFile cachedFile res =
     \<lparr> outcome = NeverSettles StatsUndefined, trace = [], fs_final = fs_after res \<rparr>"
  by (simp add: webpack_callback_def Let_def)

lemma callback_diagnostics:
  "err_and_message (cb_err res) = None \<Longrightarrow> cb_stats res = Some stats \<Longrightarrow> hasErrors stats \<Longrightarrow>
   webpack_callback env opts outputFile cachedFile res =
     \<lparr> outcome = Rejected (BundleDiagnosticError (join_lines (errors stats))),
       trace = [], fs_final = fs_after res \<rparr>"
  by (simp add: webpack_callback_def Let_def)

lemma compile_succeededD:
  "compile_succeeded res \<Longrightarrow>
   err_and_message (cb_err res) = None
   \<and> (\<exists>stats. cb_stats res = Some stats \<and> \<not> hasErrors stats)"
  by (auto simp add: compile_succeeded_def split: option.splits)

lemma callback_write_back:
  assumes "\<not> isProd opts" "compile_succeeded res" "files (fs_after res) outputFile = Some b"
    "can_write env (fs_after res) cachedFile"
  shows "webpack_callback env opts outputFile cachedFile res =
     \<lparr> outcome = Resolved, trace = [CopyFile outputFile cachedFile],
       fs_final = put_file cachedFile b (fs_after res) \<rparr>"
  using assms(1) compile_succeededD [OF assms(2)] copy_file_ok [OF assms(3,4)]
  by (auto simp add: webpack_callback_def Let_def)

lemma callback_minified:
  assumes "isProd opts" "compile_succeeded res" "files (fs_after res) outputFile = Some code"
    "terser_minify env code = Inr minified"
  shows "webpack_callback env opts outputFile cachedFile res =
     \<lparr> outcome = Resolved,
       trace = [ReadFile outputFile, TerserMinify code, WriteFile outputFile minified],
       fs_final = put_file outputFile minified (fs_after res) \<rparr>"
  using assms(1,3,4) compile_succeededD [OF assms(2)]
    write_file_existing [OF assms(3), of env minified]
  by (auto simp add: webpack_callback_def Let_def read_file_def)

lemma callback_minify_error:
  assumes "isProd opts" "compile_succeeded res" "files (fs_after res) outputFile = Some code"
    "terser_minify env code = Inl err"
  shows "webpack_callback env opts outputFile cachedFile res =
     \<lparr> outcome = Rejected (MinifyError err),
       trace = [ReadFile outputFile, TerserMinify code],
       fs_final = fs_after res \<rparr>"
  using assms(1,3,4) compile_succeededD [OF assms(2)]
  by (auto simp add: webpack_callback_def Let_def read_file_def)


section \<open>Properties of the bundle job\<close>

text \<open>
  C1. In a production run the job makes no \<open>existsSync\<close> call and no \<open>copyFile\<close> call,
  the two calls through which the cache is consulted, and its first call is the one
  call of the backend; this holds for every file system, also one with a file at
  \<open>cachedDir/entryFileName\<close>. When the output file and the cache file are different
  paths, no call of the job reads the cache file's path at all.
\<close>

theorem C1_production_skips_cache:
  assumes "isProd opts"
  shows "\<not> list_ex is_exists_sync (trace (bundleExternal env opts outputDir cachedDir e fs))
       \<and> \<not> list_ex is_copy_file (trace (bundleExternal env opts outputDir cachedDir e fs))
       \<and> hd (trace (bundleExternal env opts outputDir cachedDir e fs))
           = Webpack (webpack_options env opts outputDir e)
       \<and> length (filter is_webpack (trace (bundleExternal env opts outputDir cachedDir e fs))) = 1
       \<and> (join env [outputDir, e] \<noteq> join env [cachedDir, e] \<longrightarrow>
            \<not> list_ex (reads_path (join env [cachedDir, e]))
                 (trace (bundleExternal env opts outputDir cachedDir e fs)))"
proof -
  let ?after = "webpack_callback env opts (join env [outputDir, e]) (join env [cachedDir, e])
                  (webpack env (webpack_options env opts outputDir e) fs)"
  have run: "isProd opts \<or> \<not> exists_sync fs (join env [cachedDir, e])"
    using assms by simp
  have tr: "trace (bundleExternal env opts outputDir cachedDir e fs)
              = Webpack (webpack_options env opts outputDir e) # trace ?after"
    using assms bundleExternal_run(3) [where fs = fs and env = env and opts = opts
        and cachedDir = cachedDir and e = e and outputDir = outputDir, OF run]
    by simp
  have "filter is_webpack (trace ?after) = []"
    using callback_no_webpack [of env opts _ _ _] by (simp add: filter_empty_conv list_ex_iff)
  then show ?thesis
    using tr callback_no_exists_sync [of env opts _ _ _]
      callback_prod_no_copy_file [OF assms, of env]
      callback_prod_reads [OF assms, of _ _ env]
    by simp
qed

theorem C1_production_skips_cache_witness:
  "isProd (demo_opts True)
   \<and> files (disk [(''build/cache/prompts.js'', ''stale'')] [''build/cache''])
        (join demo_env [''build/cache'', ''prompts.js'']) = Some ''stale''
   \<and> \<not> list_ex is_exists_sync
        (trace (bundleExternal demo_env (demo_opts True) ''sys/node'' ''build/cache'' ''prompts.js''
                  (disk [(''build/cache/prompts.js'', ''stale'')] [''build/cache''])))
   \<and> length (filter is_webpack
        (trace (bundleExternal demo_env (demo_opts True) ''sys/node'' ''build/cache'' ''prompts.js''
                  (disk [(''build/cache/prompts.js'', ''stale'')] [''build/cache''])))) = 1
   \<and> join demo_env [''sys/node'', ''prompts.js''] \<noteq> join demo_env [''build/cache'', ''prompts.js'']
   \<and> \<not> list_ex (reads_path (join demo_env [''build/cache'', ''prompts.js'']))
        (trace (bundleExternal demo_env (demo_opts True) ''sys/node'' ''build/cache'' ''prompts.js''
                  (disk [(''build/cache/prompts.js'', ''stale'')] [''build/cache''])))"
proof -
  have p: "isProd (demo_opts True)"
    by (simp add: demo_opts_def)
  have d: "join demo_env [''sys/node'', ''prompts.js'']
             \<noteq> join demo_env [''build/cache'', ''prompts.js'']"
    by (simp add: demo_env_def)
  have c: "files (disk [(''build/cache/prompts.js'', ''stale'')] [''build/cache''])
        (join demo_env [''build/cache'', ''prompts.js'']) = Some ''stale''"
    by (simp add: demo_env_def disk_def)
  from C1_production_skips_cache [OF p, of demo_env "''sys/node''" "''build/cache''"
         "''prompts.js''" "disk [(''build/cache/prompts.js'', ''stale'')] [''build/cache'']"] p d c
  show ?thesis by blast
qed

text \<open>
  C2. The write into the cache is the \<open>copyFile(outputFile, cachedFile)\<close> of the callback's
  last branch: with the output file and the cache file at different paths, a call of the
  job writes the cache file's path only in a run that is not a production run, called
  the backend, and was told of a successful compile. A production run makes no
  \<open>copyFile\<close> call. A job that ends rejected (tooling error, diagnostics or minify error)
  has made no \<open>copyFile\<close> and no \<open>writeFile\<close> call and leaves the file system as the
  backend left it, so it adds no cache entry. In a run that called the backend, a
  \<open>copyFile\<close> call is there only when the run is not a production run and the compile
  succeeded, and it is then the single, last call, from the output file to the cache
  file. And whenever the run is a production run or does not end resolved, the job's own
  calls leave the content at the cache path (a path other than the output file) alone:
  it is what the backend left there or, when the backend was not called, what was there
  before.
\<close>

theorem C2_cache_write_only_after_successful_compile:
  "(let outputFile = join env [outputDir, e];
        cachedFile = join env [cachedDir, e];
        res = webpack env (webpack_options env opts outputDir e) fs;
        job = bundleExternal env opts outputDir cachedDir e fs
    in (isProd opts \<longrightarrow> \<not> list_ex is_copy_file (trace job))
     \<and> (\<forall>err. outcome job = Rejected err \<longrightarrow>
           \<not> list_ex is_copy_file (trace job) \<and> \<not> list_ex is_write_file (trace job)
           \<and> list_ex is_webpack (trace job) \<and> fs_final job = fs_after res)
     \<and> (list_ex is_webpack (trace job) \<and> list_ex is_copy_file (trace job) \<longrightarrow>
           \<not> isProd opts \<and> compile_succeeded res
           \<and> last (trace job) = CopyFile outputFile cachedFile
           \<and> length (filter is_copy_file (trace job)) = 1)
     \<and> ((isProd opts \<or> outcome job \<noteq> Resolved) \<and> outputFile \<noteq> cachedFile \<longrightarrow>
           files (fs_final job) cachedFile
             = files (if list_ex is_webpack (trace job) then fs_after res else fs) cachedFile)
     \<and> (outputFile \<noteq> cachedFile \<and> list_ex (writes_path cachedFile) (trace job) \<longrightarrow>
           \<not> isProd opts \<and> list_ex is_webpack (trace job) \<and> compile_succeeded res))"
  unfolding Let_def
  using cache_write_prod [of opts env outputDir cachedDir e fs]
    cache_write_rejected [of env opts outputDir cachedDir e fs]
    cache_write_needs_success [of env opts outputDir cachedDir e fs]
    cache_path_kept [of opts env outputDir cachedDir e fs]
    cache_written_needs_success [of env outputDir e cachedDir opts fs]
  by blast

theorem C2_cache_write_only_after_successful_compile_witness:
  "isProd (demo_opts True)
   \<and> \<not> list_ex is_copy_file
        (trace (bundleExternal demo_env (demo_opts True) ''sys/node'' ''build/cache''
                  ''prompts.js'' (disk [] [''build/cache''])))
   \<and> outcome (bundleExternal demo_env (demo_opts False) ''sys/node'' ''build/cache''
                 ''glob.js'' (disk [] [''build/cache'']))
       = Rejected (BundleDiagnosticError (''Module not found'' @ [CHR 0x0A] @ ''in glob''))
   \<and> join demo_env [''sys/node'', ''glob.js''] \<noteq> join demo_env [''build/cache'', ''glob.js'']
   \<and> files (fs_final (bundleExternal demo_env (demo_opts False) ''sys/node'' ''build/cache''
                  ''glob.js'' (disk [] [''build/cache'']))) ''build/cache/glob.js'' = None
   \<and> list_ex is_webpack
        (trace (bundleExternal demo_env (demo_opts False) ''sys/node'' ''build/cache''
                  ''prompts.js'' (disk [] [''build/cache''])))
   \<and> list_ex is_copy_file
        (trace (bundleExternal demo_env (demo_opts False) ''sys/node'' ''build/cache''
                  ''prompts.js'' (disk [] [''build/cache''])))
   \<and> join demo_env [''sys/node'', ''prompts.js'']
       \<noteq> join demo_env [''build/cache'', ''prompts.js'']
   \<and> list_ex (writes_path (join demo_env [''build/cache'', ''prompts.js'']))
        (trace (bundleExternal demo_env (demo_opts False) ''sys/node'' ''build/cache''
                  ''prompts.js'' (disk [] [''build/cache''])))
   \<and> compile_succeeded
        (webpack demo_env (webpack_options demo_env (demo_opts False) ''sys/node'' ''prompts.js'')
           (disk [] [''build/cache'']))
   \<and> last (trace (bundleExternal demo_env (demo_opts False) ''sys/node'' ''build/cache''
                     ''prompts.js'' (disk [] [''build/cache''])))
       = CopyFile (join demo_env [''sys/node'', ''prompts.js''])
           (join demo_env [''build/cache'', ''prompts.js''])"
proof -
  let ?fs = "disk [] [''build/cache'']"
  have p: "isProd (demo_opts True)"
    by (simp add: demo_opts_def)
  have r: "outcome (bundleExternal demo_env (demo_opts False) ''sys/node'' ''build/cache''
                 ''glob.js'' ?fs)
       = Rejected (BundleDiagnosticError (''Module not found'' @ [CHR 0x0A] @ ''in glob''))"
    by code_simp
  have d: "join demo_env [''sys/node'', ''glob.js''] \<noteq> join demo_env [''build/cache'', ''glob.js'']"
    by (simp add: demo_env_def)
  have w: "list_ex is_webpack
        (trace (bundleExternal demo_env (demo_opts False) ''sys/node'' ''build/cache''
                  ''prompts.js'' ?fs))"
      "list_ex is_copy_file
        (trace (bundleExternal demo_env (demo_opts False) ''sys/node'' ''build/cache''
                  ''prompts.js'' ?fs))"
    by code_simp+
  have d2: "join demo_env [''sys/node'', ''prompts.js'']
       \<noteq> join demo_env [''build/cache'', ''prompts.js'']"
    by (simp add: demo_env_def)
  have wr: "list_ex (writes_path (join demo_env [''build/cache'', ''prompts.js'']))
        (trace (bundleExternal demo_env (demo_opts False) ''sys/node'' ''build/cache''
                  ''prompts.js'' ?fs))"
    by code_simp
  have kept: "files (fs_after (webpack demo_env
           (webpack_options demo_env (demo_opts False) ''sys/node'' ''glob.js'') ?fs))
        ''build/cache/glob.js'' = None"
    by code_simp
  from C2_cache_write_only_after_successful_compile
         [of demo_env "''sys/node''" "''prompts.js''" "''build/cache''" "demo_opts True" ?fs]
  have one: "\<not> list_ex is_copy_file
        (trace (bundleExternal demo_env (demo_opts True) ''sys/node'' ''build/cache''
                  ''prompts.js'' ?fs))"
    using p unfolding Let_def by blast
  from C2_cache_write_only_after_successful_compile
         [of demo_env "''sys/node''" "''glob.js''" "''build/cache''" "demo_opts False" ?fs]
  have two: "fs_final (bundleExternal demo_env (demo_opts False) ''sys/node'' ''build/cache''
                  ''glob.js'' ?fs)
       = fs_after (webpack demo_env
           (webpack_options demo_env (demo_opts False) ''sys/node'' ''glob.js'') ?fs)"
    using r unfolding Let_def by blast
  have f: "files (fs_final (bundleExternal demo_env (demo_opts False) ''sys/node'' ''build/cache''
                  ''glob.js'' ?fs)) ''build/cache/glob.js'' = None"
    by (simp only: two kept)
  from C2_cache_write_only_after_successful_compile
         [of demo_env "''sys/node''" "''prompts.js''" "''build/cache''" "demo_opts False" ?fs]
  have three: "compile_succeeded
        (webpack demo_env (webpack_options demo_env (demo_opts False) ''sys/node'' ''prompts.js'')
           ?fs)
      \<and> last (trace (bundleExternal demo_env (demo_opts False) ''sys/node'' ''build/cache''
                     ''prompts.js'' ?fs))
       = CopyFile (join demo_env [''sys/node'', ''prompts.js''])
           (join demo_env [''build/cache'', ''prompts.js''])"
    using w unfolding Let_def by blast
  from p r d f w d2 wr one three show ?thesis by blast
qed


lemma put_file_same: "files fs p = Some b \<Longrightarrow> put_file p b fs = fs"
  by (simp add: put_file_def map_upd_triv)

text \<open>
  C5, as stated, fails: \<open>copyFile(cachedFile, outputFile)\<close> creates no directory, and on a
  cache hit the backend, which would create the output directory, is not called. With
  the cache file in place and no output directory, the copy fails inside the \<open>async\<close>
  executor, the job's promise never settles, and there is no output file.
\<close>

theorem C5_cache_hit_counterexample:
  "\<not> isProd (demo_opts False)
   \<and> files (disk [(''build/cache/prompts.js'', ''cached bundle'')] [''build/cache''])
        (join demo_env [''build/cache'', ''prompts.js'']) = Some ''cached bundle''
   \<and> outcome (bundleExternal demo_env (demo_opts False) ''sys/node'' ''build/cache''
                 ''prompts.js''
                 (disk [(''build/cache/prompts.js'', ''cached bundle'')] [''build/cache'']))
       = NeverSettles (NoSuchDirectory ''sys/node'')
   \<and> files (fs_final (bundleExternal demo_env (demo_opts False) ''sys/node'' ''build/cache''
                  ''prompts.js''
                  (disk [(''build/cache/prompts.js'', ''cached bundle'')] [''build/cache''])))
        (join demo_env [''sys/node'', ''prompts.js'']) = None"
  by code_simp

text \<open>
  C5, amended. Outside production, when something is at the cache file's path, the job
  calls \<open>existsSync\<close> and \<open>copyFile(cachedFile, outputFile)\<close> and nothing else: the
  backend is not called. When the cache entry is a file and the output file can be
  written (it is there already, or its directory is), the job resolves and the output
  file holds the bytes of the cache file. Hence a run that compiled successfully and
  wrote the cache, followed by a second run of the same job, leaves in the output file
  the very bytes the compile wrote there: the second run does not call the backend and
  changes nothing in the file system.
\<close>

theorem C5_cache_hit_copies_cache_file:
  "(let outputFile = join env [outputDir, e];
        cachedFile = join env [cachedDir, e];
        job = bundleExternal env opts outputDir cachedDir e fs
    in (\<not> isProd opts \<and> exists_sync fs cachedFile \<longrightarrow>
          trace job = [ExistsSync cachedFile, CopyFile cachedFile outputFile]
        \<and> \<not> list_ex is_webpack (trace job))
     \<and> (\<not> isProd opts \<and> files fs cachedFile = Some cached \<and> can_write env fs outputFile \<longrightarrow>
          outcome job = Resolved
        \<and> files (fs_final job) outputFile = files fs cachedFile
        \<and> fs_final job = put_file outputFile cached fs))
   \<and> (let outputFile = join env [outputDir, e];
          cachedFile = join env [cachedDir, e];
          res = webpack env (webpack_options env opts outputDir e) fs;
          first = bundleExternal env opts outputDir cachedDir e fs;
          second = bundleExternal env opts outputDir cachedDir e (fs_final first)
      in \<not> isProd opts \<and> \<not> exists_sync fs cachedFile \<and> compile_succeeded res
           \<and> files (fs_after res) outputFile = Some b
           \<and> can_write env (fs_after res) cachedFile \<longrightarrow>
         outcome first = Resolved
       \<and> list_ex is_webpack (trace first)
       \<and> files (fs_final first) outputFile = Some b
       \<and> files (fs_final first) cachedFile = Some b
       \<and> outcome second = Resolved
       \<and> \<not> list_ex is_webpack (trace second)
       \<and> files (fs_final second) outputFile = Some b
       \<and> fs_final second = fs_final first)"
proof -
  let ?out = "join env [outputDir, e]" and ?cache = "join env [cachedDir, e]"
  let ?res = "webpack env (webpack_options env opts outputDir e) fs"
  let ?first = "bundleExternal env opts outputDir cachedDir e fs"
  have hit: "trace ?first = [ExistsSync ?cache, CopyFile ?cache ?out]
        \<and> \<not> list_ex is_webpack (trace ?first)"
    if "\<not> isProd opts" "exists_sync fs ?cache"
    using bundleExternal_hit(1) [OF that, of outputDir] by simp
  have copy: "outcome ?first = Resolved
        \<and> files (fs_final ?first) ?out = files fs ?cache
        \<and> fs_final ?first = put_file ?out cached fs"
    if "\<not> isProd opts" "files fs ?cache = Some cached" "can_write env fs ?out"
    using that(2) by (simp add: bundleExternal_hit_ok [OF that] files_put_file)
  have twice: "outcome ?first = Resolved
       \<and> list_ex is_webpack (trace ?first)
       \<and> files (fs_final ?first) ?out = Some b
       \<and> files (fs_final ?first) ?cache = Some b
       \<and> outcome (bundleExternal env opts outputDir cachedDir e (fs_final ?first)) = Resolved
       \<and> \<not> list_ex is_webpack
            (trace (bundleExternal env opts outputDir cachedDir e (fs_final ?first)))
       \<and> files (fs_final (bundleExternal env opts outputDir cachedDir e (fs_final ?first))) ?out
           = Some b
       \<and> fs_final (bundleExternal env opts outputDir cachedDir e (fs_final ?first))
           = fs_final ?first"
    if h: "\<not> isProd opts" "\<not> exists_sync fs ?cache" "compile_succeeded ?res"
          "files (fs_after ?res) ?out = Some b" "can_write env (fs_after ?res) ?cache"
  proof -
    have run: "isProd opts \<or> \<not> exists_sync fs ?cache"
      using h(2) by simp
    note job = bundleExternal_run [where fs = fs and env = env and opts = opts
        and cachedDir = cachedDir and e = e and outputDir = outputDir, OF run]
    note cb = callback_write_back [OF h(1,3,4,5)]
    have o: "outcome ?first = Resolved"
      by (simp add: job(1) cb)
    have t: "list_ex is_webpack (trace ?first)"
      by (simp add: job(3))
    have f: "fs_final ?first = put_file ?cache b (fs_after ?res)"
      by (simp add: job(2) cb)
    have c1: "files (fs_final ?first) ?cache = Some b"
      by (simp add: f files_put_file)
    have o1: "files (fs_final ?first) ?out = Some b"
      using h(4) by (simp add: f files_put_file)
    have w1: "can_write env (fs_final ?first) ?out"
      using o1 by (simp add: can_write_def)
    note second = bundleExternal_hit_ok [where fs = "fs_final ?first" and env = env
        and cachedDir = cachedDir and e = e and outputDir = outputDir and opts = opts
        and cached = b, OF h(1) c1 w1]
    have same: "put_file ?out b (fs_final ?first) = fs_final ?first"
      using o1 by (rule put_file_same)
    show ?thesis
      using o t o1 c1 by (simp add: second same)
  qed
  have first_part: "(\<not> isProd opts \<and> exists_sync fs ?cache \<longrightarrow>
          trace ?first = [ExistsSync ?cache, CopyFile ?cache ?out]
        \<and> \<not> list_ex is_webpack (trace ?first))
     \<and> (\<not> isProd opts \<and> files fs ?cache = Some cached \<and> can_write env fs ?out \<longrightarrow>
          outcome ?first = Resolved
        \<and> files (fs_final ?first) ?out = files fs ?cache
        \<and> fs_final ?first = put_file ?out cached fs)"
    using hit copy by blast
  from twice have second_part: "\<not> isProd opts \<and> \<not> exists_sync fs ?cache \<and> compile_succeeded ?res
           \<and> files (fs_after ?res) ?out = Some b
           \<and> can_write env (fs_after ?res) ?cache \<longrightarrow>
         outcome ?first = Resolved
       \<and> list_ex is_webpack (trace ?first)
       \<and> files (fs_final ?first) ?out = Some b
       \<and> files (fs_final ?first) ?cache = Some b
       \<and> outcome (bundleExternal env opts outputDir cachedDir e (fs_final ?first)) = Resolved
       \<and> \<not> list_ex is_webpack
            (trace (bundleExternal env opts outputDir cachedDir e (fs_final ?first)))
       \<and> files (fs_final (bundleExternal env opts outputDir cachedDir e (fs_final ?first))) ?out
           = Some b
       \<and> fs_final (bundleExternal env opts outputDir cachedDir e (fs_final ?first))
           = fs_final ?first"
    by blast
  from first_part second_part show ?thesis
    by (simp only: Let_def)
qed

theorem C5_cache_hit_copies_cache_file_witness:
  "outcome (bundleExternal demo_env (demo_opts False) ''sys/node'' ''build/cache''
                 ''prompts.js''
                 (disk [(''build/cache/prompts.js'', ''cached bundle'')]
                    [''build/cache'', ''sys/node''])) = Resolved
   \<and> \<not> list_ex is_webpack
        (trace (bundleExternal demo_env (demo_opts False) ''sys/node'' ''build/cache''
                 ''prompts.js''
                 (disk [(''build/cache/prompts.js'', ''cached bundle'')]
                    [''build/cache'', ''sys/node''])))
   \<and> files (fs_final (bundleExternal demo_env (demo_opts False) ''sys/node'' ''build/cache''
                  ''prompts.js''
                  (disk [(''build/cache/prompts.js'', ''cached bundle'')]
                     [''build/cache'', ''sys/node''])))
        (join demo_env [''sys/node'', ''prompts.js'']) = Some ''cached bundle''
   \<and> \<not> list_ex is_webpack
        (trace (bundleExternal demo_env (demo_opts False) ''sys/node'' ''build/cache'' ''prompts.js''
           (fs_final (bundleExternal demo_env (demo_opts False) ''sys/node'' ''build/cache''
                        ''prompts.js'' (disk [] [''build/cache''])))))
   \<and> files (fs_final
        (bundleExternal demo_env (demo_opts False) ''sys/node'' ''build/cache'' ''prompts.js''
           (fs_final (bundleExternal demo_env (demo_opts False) ''sys/node'' ''build/cache''
                        ''prompts.js'' (disk [] [''build/cache''])))))
        (join demo_env [''sys/node'', ''prompts.js'']) = Some ''bundle of prompts.js''"
proof -
  let ?hit = "disk [(''build/cache/prompts.js'', ''cached bundle'')] [''build/cache'', ''sys/node'']"
  let ?miss = "disk [] [''build/cache'']"
  have np: "\<not> isProd (demo_opts False)"
    by (simp add: demo_opts_def)
  have there: "exists_sync ?hit (join demo_env [''build/cache'', ''prompts.js''])"
    and cached: "files ?hit (join demo_env [''build/cache'', ''prompts.js''])
                   = Some ''cached bundle''"
    and writable: "can_write demo_env ?hit (join demo_env [''sys/node'', ''prompts.js''])"
    by code_simp+
  have miss: "\<not> exists_sync ?miss (join demo_env [''build/cache'', ''prompts.js''])"
    and ok: "compile_succeeded
        (webpack demo_env (webpack_options demo_env (demo_opts False) ''sys/node'' ''prompts.js'')
           ?miss)"
    and out: "files (fs_after
        (webpack demo_env (webpack_options demo_env (demo_opts False) ''sys/node'' ''prompts.js'')
           ?miss)) (join demo_env [''sys/node'', ''prompts.js''])
       = Some ''bundle of prompts.js''"
    and cache_dir: "can_write demo_env (fs_after
        (webpack demo_env (webpack_options demo_env (demo_opts False) ''sys/node'' ''prompts.js'')
           ?miss)) (join demo_env [''build/cache'', ''prompts.js''])"
    by code_simp+
  from C5_cache_hit_copies_cache_file [of demo_env "''sys/node''" "''prompts.js''"
         "''build/cache''" "demo_opts False" ?hit "''cached bundle''"]
  have one: "outcome (bundleExternal demo_env (demo_opts False) ''sys/node'' ''build/cache''
                 ''prompts.js'' ?hit) = Resolved
   \<and> \<not> list_ex is_webpack
        (trace (bundleExternal demo_env (demo_opts False) ''sys/node'' ''build/cache''
                 ''prompts.js'' ?hit))
   \<and> files (fs_final (bundleExternal demo_env (demo_opts False) ''sys/node'' ''build/cache''
                  ''prompts.js'' ?hit))
        (join demo_env [''sys/node'', ''prompts.js''])
       = files ?hit (join demo_env [''build/cache'', ''prompts.js''])"
    using np there cached writable unfolding Let_def by blast
  from C5_cache_hit_copies_cache_file [where env = demo_env and outputDir = "''sys/node''"
         and e = "''prompts.js''" and cachedDir = "''build/cache''" and opts = "demo_opts False"
         and fs = ?miss and b = "''bundle of prompts.js''"]
  have two: "\<not> list_ex is_webpack
        (trace (bundleExternal demo_env (demo_opts False) ''sys/node'' ''build/cache'' ''prompts.js''
           (fs_final (bundleExternal demo_env (demo_opts False) ''sys/node'' ''build/cache''
                        ''prompts.js'' ?miss))))
   \<and> files (fs_final
        (bundleExternal demo_env (demo_opts False) ''sys/node'' ''build/cache'' ''prompts.js''
           (fs_final (bundleExternal demo_env (demo_opts False) ''sys/node'' ''build/cache''
                        ''prompts.js'' ?miss))))
        (join demo_env [''sys/node'', ''prompts.js'']) = Some ''bundle of prompts.js''"
    using np miss ok out cache_dir unfolding Let_def by blast
  from one two cached show ?thesis by simp
qed

text \<open>
  C7, as stated, fails: the callback rejects with \<open>err\<close> only under the test
  \<open>err && err.message\<close>. When the backend hands over an error value whose message is the
  empty string (and, as it does with an error, no stats), the test is false, the code
  goes on to \<open>stats.toJson\<close>, and the exception this raises inside the \<open>async\<close> callback
  settles nothing: the job's promise is not rejected with the error.
\<close>

theorem C7_hard_failure_counterexample:
  "cb_err (webpack silent_env
             (webpack_options silent_env (demo_opts True) ''sys/node'' ''prompts.js'')
             (disk [] []))
     = Some \<lparr> message = [] \<rparr>
   \<and> outcome (bundleExternal silent_env (demo_opts True) ''sys/node'' ''build/cache''
                 ''prompts.js'' (disk [] [])) = NeverSettles StatsUndefined
   \<and> outcome (bundleExternal silent_env (demo_opts True) ''sys/node'' ''build/cache''
                 ''prompts.js'' (disk [] [])) \<noteq> Rejected (CompileError \<lparr> message = [] \<rparr>)"
proof -
  have p: "isProd (demo_opts True) \<or> \<not> exists_sync (disk [] [])
             (join silent_env [''build/cache'', ''prompts.js''])"
    by (simp add: demo_opts_def)
  have w: "webpack silent_env = silent_webpack"
    by (simp add: silent_env_def)
  have "outcome (bundleExternal silent_env (demo_opts True) ''sys/node'' ''build/cache''
                 ''prompts.js'' (disk [] [])) = NeverSettles StatsUndefined"
    using callback_stats_undefined [of "silent_webpack
          (webpack_options silent_env (demo_opts True) ''sys/node'' ''prompts.js'') (disk [] [])"
          silent_env "demo_opts True"]
    by (simp add: bundleExternal_run(1) [where fs = "disk [] []" and env = silent_env
          and opts = "demo_opts True" and cachedDir = "''build/cache''" and e = "''prompts.js''"
          and outputDir = "''sys/node''", OF p] w silent_webpack_def err_and_message_def)
  then show ?thesis
    by (simp add: w silent_webpack_def)
qed

text \<open>
  C7, amended. When the backend is called (a production run, or nothing at the cache
  file's path) and hands its callback an error value with a non-empty message, the job's
  promise is rejected with that very error value; the backend was called once, its call
  is the last call the job makes, and the file system is left as the backend left it.
\<close>

theorem C7_hard_failure_rejects:
  assumes "isProd opts \<or> \<not> exists_sync fs (join env [cachedDir, e])"
    and "cb_err (webpack env (webpack_options env opts outputDir e) fs) = Some err"
    and "message err \<noteq> []"
  shows "outcome (bundleExternal env opts outputDir cachedDir e fs) = Rejected (CompileError err)
       \<and> length (filter is_webpack (trace (bundleExternal env opts outputDir cachedDir e fs))) = 1
       \<and> last (trace (bundleExternal env opts outputDir cachedDir e fs))
           = Webpack (webpack_options env opts outputDir e)
       \<and> fs_final (bundleExternal env opts outputDir cachedDir e fs)
           = fs_after (webpack env (webpack_options env opts outputDir e) fs)"
proof -
  have "err_and_message (cb_err (webpack env (webpack_options env opts outputDir e) fs)) = Some err"
    using assms(2,3) by (simp add: err_and_message_def)
  note cb = callback_hard_failure [OF this, of env opts "join env [outputDir, e]"
      "join env [cachedDir, e]"]
  note job = bundleExternal_run [where fs = fs and env = env and opts = opts
      and cachedDir = cachedDir and e = e and outputDir = outputDir, OF assms(1)]
  show ?thesis
    by (simp add: job cb)
qed

theorem C7_hard_failure_rejects_witness:
  "(isProd (demo_opts False)
      \<or> \<not> exists_sync (disk [] []) (join demo_env [''build/cache'', ''ws.js'']))
   \<and> cb_err (webpack demo_env (webpack_options demo_env (demo_opts False) ''dev-server'' ''ws.js'')
        (disk [] [])) = Some \<lparr> message = ''EACCES'' \<rparr>
   \<and> message \<lparr> message = ''EACCES'' \<rparr> \<noteq> []
   \<and> outcome (bundleExternal demo_env (demo_opts False) ''dev-server'' ''build/cache'' ''ws.js''
        (disk [] [])) = Rejected (CompileError \<lparr> message = ''EACCES'' \<rparr>)
   \<and> length (filter is_webpack
        (trace (bundleExternal demo_env (demo_opts False) ''dev-server'' ''build/cache'' ''ws.js''
           (disk [] [])))) = 1"
proof -
  have a: "isProd (demo_opts False)
      \<or> \<not> exists_sync (disk [] []) (join demo_env [''build/cache'', ''ws.js''])"
    by (simp add: exists_sync_def disk_def)
  have b: "cb_err (webpack demo_env
        (webpack_options demo_env (demo_opts False) ''dev-server'' ''ws.js'') (disk [] []))
      = Some \<lparr> message = ''EACCES'' \<rparr>"
    by (simp add: demo_env_def demo_webpack_def webpack_options_def)
  have c: "message \<lparr> message = ''EACCES'' \<rparr> \<noteq> []"
    by simp
  from C7_hard_failure_rejects [where fs = "disk [] []" and env = demo_env
         and opts = "demo_opts False" and cachedDir = "''build/cache''" and e = "''ws.js''"
         and outputDir = "''dev-server''" and err = "\<lparr> message = ''EACCES'' \<rparr>", OF a b c]
       a b c
  show ?thesis by blast
qed


lemma webpack_options_output:
  "output_path (webpack_options env opts outputDir e) = outputDir"
  "output_filename (webpack_options env opts outputDir e) = e"
  "optimization_minimize (webpack_options env opts outputDir e) = False"
  by (simp_all add: webpack_options_def)

text \<open>
  C8. In a production run whose compile succeeded and left the artifact at the output
  file, the backend was configured with \<open>minimize: false\<close>, and after the backend's call
  the job reads the output file and passes its content to the minifier. If the minifier
  reports an error, the job is rejected with that error and makes no further call: the
  output file is not written and the file system stays as the backend left it. Otherwise
  the job writes the minified code to the output file and resolves. Neither way is there
  an \<open>existsSync\<close> or a \<open>copyFile\<close> call, so nothing is written to the cache.
\<close>

theorem C8_production_minify:
  "(let outputFile = join env [outputDir, e];
        cfg = webpack_options env opts outputDir e;
        res = webpack env cfg fs;
        job = bundleExternal env opts outputDir cachedDir e fs
    in isProd opts \<and> compile_succeeded res \<and> files (fs_after res) outputFile = Some code \<longrightarrow>
         \<not> optimization_minimize cfg
       \<and> take 3 (trace job) = [Webpack cfg, ReadFile outputFile, TerserMinify code]
       \<and> (\<forall>err. terser_minify env code = Inl err \<longrightarrow>
             outcome job = Rejected (MinifyError err)
           \<and> trace job = [Webpack cfg, ReadFile outputFile, TerserMinify code]
           \<and> \<not> list_ex is_write_file (trace job)
           \<and> fs_final job = fs_after res)
       \<and> (\<forall>minified. terser_minify env code = Inr minified \<longrightarrow>
             outcome job = Resolved
           \<and> trace job = [Webpack cfg, ReadFile outputFile, TerserMinify code,
                           WriteFile outputFile minified]
           \<and> fs_final job = put_file outputFile minified (fs_after res))
       \<and> \<not> list_ex is_copy_file (trace job)
       \<and> \<not> list_ex is_exists_sync (trace job))"
proof -
  let ?out = "join env [outputDir, e]" and ?cache = "join env [cachedDir, e]"
  let ?cfg = "webpack_options env opts outputDir e"
  let ?res = "webpack env ?cfg fs"
  let ?job = "bundleExternal env opts outputDir cachedDir e fs"
  have main: "\<not> optimization_minimize ?cfg
       \<and> take 3 (trace ?job) = [Webpack ?cfg, ReadFile ?out, TerserMinify code]
       \<and> (\<forall>err. terser_minify env code = Inl err \<longrightarrow>
             outcome ?job = Rejected (MinifyError err)
           \<and> trace ?job = [Webpack ?cfg, ReadFile ?out, TerserMinify code]
           \<and> \<not> list_ex is_write_file (trace ?job)
           \<and> fs_final ?job = fs_after ?res)
       \<and> (\<forall>minified. terser_minify env code = Inr minified \<longrightarrow>
             outcome ?job = Resolved
           \<and> trace ?job = [Webpack ?cfg, ReadFile ?out, TerserMinify code,
                           WriteFile ?out minified]
           \<and> fs_final ?job = put_file ?out minified (fs_after ?res))
       \<and> \<not> list_ex is_copy_file (trace ?job)
       \<and> \<not> list_ex is_exists_sync (trace ?job)"
    if h: "isProd opts" "compile_succeeded ?res" "files (fs_after ?res) ?out = Some code"
  proof -
    have run: "isProd opts \<or> \<not> exists_sync fs ?cache"
      using h(1) by simp
    note job = bundleExternal_run [where fs = fs and env = env and opts = opts
        and cachedDir = cachedDir and e = e and outputDir = outputDir, OF run]
    show ?thesis
    proof (cases "terser_minify env code")
      case (Inl err)
      from callback_minify_error [OF h Inl, of ?cache] h(1) Inl
      show ?thesis
        by (simp add: job webpack_options_output)
    next
      case (Inr minified)
      from callback_minified [OF h Inr, of ?cache] h(1) Inr
      show ?thesis
        by (simp add: job webpack_options_output)
    qed
  qed
  then show ?thesis
    by (simp only: Let_def) blast
qed

theorem C8_production_minify_witness:
  "outcome (bundleExternal demo_env (demo_opts True) ''sys/node'' ''build/cache'' ''why?.js''
        (disk [] [])) = Rejected (MinifyError \<lparr> message = ''Unexpected token'' \<rparr>)
   \<and> files (fs_final (bundleExternal demo_env (demo_opts True) ''sys/node'' ''build/cache''
        ''why?.js'' (disk [] []))) ''sys/node/why?.js'' = Some ''bundle of why?.js''
   \<and> outcome (bundleExternal demo_env (demo_opts True) ''sys/node'' ''build/cache''
        ''prompts.js'' (disk [] [])) = Resolved
   \<and> files (fs_final (bundleExternal demo_env (demo_opts True) ''sys/node'' ''build/cache''
        ''prompts.js'' (disk [] []))) ''sys/node/prompts.js'' = Some ''bundleofprompts.js''"
proof -
  let ?fs = "disk [] []"
  have p: "isProd (demo_opts True)"
    by (simp add: demo_opts_def)
  have ok1: "compile_succeeded
        (webpack demo_env (webpack_options demo_env (demo_opts True) ''sys/node'' ''why?.js'') ?fs)"
    and ok2: "compile_succeeded
        (webpack demo_env (webpack_options demo_env (demo_opts True) ''sys/node'' ''prompts.js'')
           ?fs)"
    by code_simp+
  have out1: "files (fs_after
        (webpack demo_env (webpack_options demo_env (demo_opts True) ''sys/node'' ''why?.js'') ?fs))
        (join demo_env [''sys/node'', ''why?.js'']) = Some ''bundle of why?.js''"
    and out2: "files (fs_after
        (webpack demo_env (webpack_options demo_env (demo_opts True) ''sys/node'' ''prompts.js'')
           ?fs)) (join demo_env [''sys/node'', ''prompts.js'']) = Some ''bundle of prompts.js''"
    by code_simp+
  have m1: "terser_minify demo_env ''bundle of why?.js'' = Inl \<lparr> message = ''Unexpected token'' \<rparr>"
    and m2: "terser_minify demo_env ''bundle of prompts.js'' = Inr ''bundleofprompts.js''"
    by (simp_all add: demo_env_def demo_minify_def)
  have j1: "join demo_env [''sys/node'', ''why?.js''] = ''sys/node/why?.js''"
    and j2: "join demo_env [''sys/node'', ''prompts.js''] = ''sys/node/prompts.js''"
    by (simp_all add: demo_env_def)
  from C8_production_minify [where env = demo_env and outputDir = "''sys/node''"
         and e = "''why?.js''" and opts = "demo_opts True" and fs = ?fs
         and cachedDir = "''build/cache''" and code = "''bundle of why?.js''"]
  have one: "outcome (bundleExternal demo_env (demo_opts True) ''sys/node'' ''build/cache''
        ''why?.js'' ?fs) = Rejected (MinifyError \<lparr> message = ''Unexpected token'' \<rparr>)
      \<and> fs_final (bundleExternal demo_env (demo_opts True) ''sys/node'' ''build/cache''
        ''why?.js'' ?fs)
        = fs_after (webpack demo_env
            (webpack_options demo_env (demo_opts True) ''sys/node'' ''why?.js'') ?fs)"
    using p ok1 out1 m1 unfolding Let_def by blast
  from C8_production_minify [where env = demo_env and outputDir = "''sys/node''"
         and e = "''prompts.js''" and opts = "demo_opts True" and fs = ?fs
         and cachedDir = "''build/cache''" and code = "''bundle of prompts.js''"]
  have two: "outcome (bundleExternal demo_env (demo_opts True) ''sys/node'' ''build/cache''
        ''prompts.js'' ?fs) = Resolved
      \<and> fs_final (bundleExternal demo_env (demo_opts True) ''sys/node'' ''build/cache''
        ''prompts.js'' ?fs)
        = put_file (join demo_env [''sys/node'', ''prompts.js'']) ''bundleofprompts.js''
            (fs_after (webpack demo_env
               (webpack_options demo_env (demo_opts True) ''sys/node'' ''prompts.js'') ?fs))"
    using p ok2 out2 m2 unfolding Let_def by blast
  have f1: "files (fs_final (bundleExternal demo_env (demo_opts True) ''sys/node'' ''build/cache''
        ''why?.js'' ?fs)) ''sys/node/why?.js'' = Some ''bundle of why?.js''"
    using one out1 by (simp add: j1)
  have f2: "files (fs_final (bundleExternal demo_env (demo_opts True) ''sys/node'' ''build/cache''
        ''prompts.js'' ?fs)) ''sys/node/prompts.js'' = Some ''bundleofprompts.js''"
    using two by (simp add: j2 files_put_file)
  from one two f1 f2 show ?thesis by blast
qed







section \<open>Properties of the orchestrator\<close>



























end
